theory Spec2Isabelle
  imports Main "HOL-Library.Sublist"
begin

section \<open>The shapefile reader's contents\<close>

text \<open>
  The model follows \<^verbatim>\<open>scripts/get_roads_city.py\<close>, class \<^verbatim>\<open>OSMCityPipeline\<close>.
  A \<^verbatim>\<open>shapefile.Reader\<close> is taken as the data it hands out: the field descriptors
  (\<^verbatim>\<open>sf.fields\<close>, whose first entry is the DeletionFlag pseudo-field), the attribute
  records (\<^verbatim>\<open>sf.records()\<close>) and the shapes (\<^verbatim>\<open>sf.shapes()\<close>).

  Attribute values are of an arbitrary type \<open>'v\<close>, compared with HOL equality where the
  source uses \<^verbatim>\<open>==\<close> and \<^verbatim>\<open>in\<close>. Coordinates are of an arbitrary type \<open>'c\<close> that has the
  comparisons \<open><\<close> and \<open>\<le>\<close>; nothing is assumed of them, so that the comparisons of
  Python's floats, which are not a linear order once a NaN is among the values, are an
  instance (type \<open>pyfloat\<close> below).
\<close>

datatype error =
    FieldNotFound    \<comment> \<open>ValueError of \<^verbatim>\<open>fields.index(...)\<close>: the name is not in the list\<close>
  | RegionNotFound   \<comment> \<open>ValueError raised when \<^verbatim>\<open>city_shapes\<close> is empty\<close>
  | EmptyGeometry    \<comment> \<open>ValueError of \<^verbatim>\<open>min\<close>/\<^verbatim>\<open>max\<close> on an empty sequence\<close>
  | IndexError       \<comment> \<open>IndexError of \<^verbatim>\<open>record[i]\<close> or \<^verbatim>\<open>fields[0]\<close> out of range\<close>
  | ColumnMismatch   \<comment> \<open>ValueError of \<^verbatim>\<open>pd.DataFrame\<close>: n columns passed, data had m columns\<close>

type_synonym 'c point = "'c \<times> 'c"

record 'c shape =
  shapeType :: int
  points :: "'c point list"

type_synonym field = "string \<times> string \<times> nat \<times> nat"

record ('v, 'c) reader =
  sf_fields :: "field list"
  sf_records :: "'v list list"
  sf_shapes :: "'c shape list"

text \<open>\<^verbatim>\<open>fields = [field[0] for field in sf.fields[1:]]\<close>\<close>

definition field_names :: "('v, 'c) reader \<Rightarrow> string list" where
  "field_names sf = map fst (tl (sf_fields sf))"

text \<open>\<^verbatim>\<open>xs.index(x)\<close>: the first position of \<open>x\<close>, or ValueError (here \<open>None\<close>).\<close>

fun list_index :: "'a list \<Rightarrow> 'a \<Rightarrow> nat option" where
  "list_index [] x = None"
| "list_index (y # ys) x = (if y = x then Some 0 else map_option Suc (list_index ys x))"

text \<open>\<^verbatim>\<open>xs[i]\<close> for a non-negative index.\<close>

definition getitem :: "'a list \<Rightarrow> nat \<Rightarrow> error + 'a" where
  "getitem xs i = (if i < length xs then Inr (xs ! i) else Inl IndexError)"

text \<open>
  The comprehension
  \<^verbatim>\<open>[shape for record, shape in zip(records, sf.shapes()) if P(record[i])]\<close>,
  used with \<open>P\<close> an equality test (boundaries) and a membership test (roads).
\<close>

fun select_shapes :: "nat \<Rightarrow> ('v \<Rightarrow> bool) \<Rightarrow> ('v list \<times> 's) list \<Rightarrow> error + 's list" where
  "select_shapes i P [] = Inr []"
| "select_shapes i P ((record, shape) # rest) =
     (case getitem record i of
        Inl e \<Rightarrow> Inl e
      | Inr v \<Rightarrow>
          (case select_shapes i P rest of
             Inl e \<Rightarrow> Inl e
           | Inr shapes \<Rightarrow> Inr (if P v then shape # shapes else shapes)))"

section \<open>Boundary extraction\<close>

text \<open>
  Python's \<^verbatim>\<open>min\<close> and \<^verbatim>\<open>max\<close> of an iterable: the first item is the candidate, a later
  item replaces it when it is strictly smaller (larger); an empty iterable raises. The
  only operation on the items is the comparison \<open><\<close>, whatever it is.
\<close>

fun py_min :: "('c::ord) list \<Rightarrow> error + 'c" where
  "py_min [] = Inl EmptyGeometry"
| "py_min (x # xs) = Inr (fold (\<lambda>item m. if item < m then item else m) xs x)"

fun py_max :: "('c::ord) list \<Rightarrow> error + 'c" where
  "py_max [] = Inl EmptyGeometry"
| "py_max (x # xs) = Inr (fold (\<lambda>item m. if item > m then item else m) xs x)"

text \<open>Lines 98 to 103: the four extrema, in the order the source computes them.\<close>

definition calc_bbox :: "('c::ord) point list \<Rightarrow> error + ('c \<times> 'c \<times> 'c \<times> 'c)" where
  "calc_bbox all_points =
     (case py_min (map fst all_points) of
        Inl e \<Rightarrow> Inl e
      | Inr min_x \<Rightarrow>
     (case py_min (map snd all_points) of
        Inl e \<Rightarrow> Inl e
      | Inr min_y \<Rightarrow>
     (case py_max (map fst all_points) of
        Inl e \<Rightarrow> Inl e
      | Inr max_x \<Rightarrow>
     (case py_max (map snd all_points) of
        Inl e \<Rightarrow> Inl e
      | Inr max_y \<Rightarrow> Inr (min_x, min_y, max_x, max_y)))))"

definition extract_city_boundaries ::
  "('v, 'c::ord) reader \<Rightarrow> 'v \<Rightarrow> string \<Rightarrow> error + ('c shape list \<times> ('c \<times> 'c \<times> 'c \<times> 'c))" where
  "extract_city_boundaries sf city_name city_field_name =
     (let fields = field_names sf; records = sf_records sf in
      case list_index fields city_field_name of
        None \<Rightarrow> Inl FieldNotFound
      | Some name_index \<Rightarrow>
          (case select_shapes name_index (\<lambda>v. v = city_name) (zip records (sf_shapes sf)) of
             Inl e \<Rightarrow> Inl e
           | Inr city_shapes \<Rightarrow>
               if city_shapes = [] then Inl RegionNotFound
               else (case calc_bbox (concat (map points city_shapes)) of
                       Inl e \<Rightarrow> Inl e
                     | Inr bbox \<Rightarrow> Inr (city_shapes, bbox))))"

subsection \<open>The coordinates a shapefile holds\<close>

text \<open>
  pyshp hands out the coordinates as Python floats, and a shapefile can hold a NaN. A float
  is either a number or NaN. The numbers are of a type \<open>'a\<close>, linearly ordered where the
  theorems need it; the two zeros, which Python's comparisons do not tell apart, are one
  number. Every comparison with NaN is false, as in IEEE 754.
\<close>

datatype 'a pyfloat = Num (the_Num: 'a) | NaN

instantiation pyfloat :: (ord) ord
begin

definition less_eq_pyfloat :: "'a pyfloat \<Rightarrow> 'a pyfloat \<Rightarrow> bool" where
  "less_eq_pyfloat x y = (case (x, y) of (Num a, Num b) \<Rightarrow> a \<le> b | _ \<Rightarrow> False)"

definition less_pyfloat :: "'a pyfloat \<Rightarrow> 'a pyfloat \<Rightarrow> bool" where
  "less_pyfloat x y = (case (x, y) of (Num a, Num b) \<Rightarrow> a < b | _ \<Rightarrow> False)"

instance ..

end

section \<open>The extraction URL\<close>











section \<open>Road classification\<close>

text \<open>
  What \<^verbatim>\<open>_extract_road_data\<close> prints, in order; the first two events are the warning
  of the fallback to the first field.
\<close>

datatype 'v event =
    NoRoadTypeField "string list"   \<comment> \<open>Warning: Could not find road type field. Available fields: ...\<close>
  | UsingFirstFieldFallback         \<comment> \<open>Using first field as fallback\<close>
  | UsingField string               \<comment> \<open>Using '...' as road type field\<close>
  | UniqueRoadTypes "'v set"        \<comment> \<open>Unique road types: ...\<close>

text \<open>
  A cell of the data frame: an attribute value of the record, a coordinate, or the
  \<^verbatim>\<open>None\<close> with which pandas fills a row that is shorter than the widest one.
\<close>

datatype ('v, 'c) cell = Attr 'v | Coord 'c | Missing

text \<open>A data frame, as far as the source decides it: the column names and the rows.\<close>

record ('v, 'c) dataframe =
  columns :: "string list"
  data :: "('v, 'c) cell list list"

definition road_type_candidates :: "string list" where
  "road_type_candidates = [''type'', ''highway'', ''road_type'', ''roadtype'', ''class'']"

text \<open>The loop over the candidates, which stops at the first one in the field names \<open>flds\<close>.\<close>

fun find_candidate :: "string list \<Rightarrow> string list \<Rightarrow> string option" where
  "find_candidate flds [] = None"
| "find_candidate flds (candidate # rest) =
     (if candidate \<in> set flds then Some candidate else find_candidate flds rest)"

text \<open>
  Lines 134 to 149: the road type field, its index, and what is printed on the way.
  \<^verbatim>\<open>fields[0]\<close> raises on an empty schema.
\<close>

definition resolve_road_type_index ::
  "string list \<Rightarrow> string list \<Rightarrow> error + (nat \<times> 'v event list)" where
  "resolve_road_type_index flds candidates =
     (case find_candidate flds candidates of
        Some road_type_field \<Rightarrow>
          (case list_index flds road_type_field of
             None \<Rightarrow> Inl FieldNotFound
           | Some road_type_index \<Rightarrow> Inr (road_type_index, [UsingField road_type_field]))
      | None \<Rightarrow>
          (case flds of
             [] \<Rightarrow> Inl IndexError
           | road_type_field # _ \<Rightarrow>
               (case list_index flds road_type_field of
                  None \<Rightarrow> Inl FieldNotFound
                | Some road_type_index \<Rightarrow>
                    Inr (road_type_index,
                         [NoRoadTypeField flds, UsingFirstFieldFallback,
                          UsingField road_type_field]))))"

text \<open>\<^verbatim>\<open>record[road_type_index] for record in records\<close>\<close>

fun column_values :: "nat \<Rightarrow> 'v list list \<Rightarrow> error + 'v list" where
  "column_values i [] = Inr []"
| "column_values i (record # rest) =
     (case getitem record i of
        Inl e \<Rightarrow> Inl e
      | Inr v \<Rightarrow> (case column_values i rest of Inl e \<Rightarrow> Inl e | Inr vs \<Rightarrow> Inr (v # vs)))"

text \<open>
  The row appended for a shape with points:
  \<^verbatim>\<open>list(record) + [start_lat, start_long, end_lat, end_long]\<close>, the first pair unpacked
  from \<^verbatim>\<open>shape.points[0]\<close> and the second from \<^verbatim>\<open>shape.points[-1]\<close>.
\<close>

definition road_row :: "'v list \<Rightarrow> 'c shape \<Rightarrow> ('v, 'c) cell list" where
  "road_row record shape =
     (case (hd (points shape), last (points shape)) of
        ((start_lat, start_long), (end_lat, end_long)) \<Rightarrow>
          map Attr record @ [Coord start_lat, Coord start_long, Coord end_lat, Coord end_long])"

text \<open>Lines 160 to 168: the loop that fills \<^verbatim>\<open>road_data\<close>.\<close>

fun road_data_loop ::
  "nat \<Rightarrow> 'v list \<Rightarrow> ('v list \<times> 'c shape) list \<Rightarrow> ('v, 'c) cell list list
     \<Rightarrow> error + ('v, 'c) cell list list" where
  "road_data_loop i road_types_of_interest [] road_data = Inr road_data"
| "road_data_loop i road_types_of_interest ((record, shape) # rest) road_data =
     (case getitem record i of
        Inl e \<Rightarrow> Inl e
      | Inr v \<Rightarrow>
          if v \<notin> set road_types_of_interest
          then road_data_loop i road_types_of_interest rest road_data
          else if shapeType shape = 3
          then (if points shape \<noteq> []
                then road_data_loop i road_types_of_interest rest
                       (road_data @ [road_row record shape])
                else road_data_loop i road_types_of_interest rest road_data)
          else road_data_loop i road_types_of_interest rest road_data)"

text \<open>
  \<^verbatim>\<open>pd.DataFrame(road_data, columns=...)\<close> on a list of lists. No row gives the empty frame
  with the columns asked for. Otherwise pandas lays the rows out in a table as wide as
  the widest row, the shorter rows filled with \<^verbatim>\<open>None\<close>, and raises when that width is not
  the number of column names. The values of the cells are kept as they are passed; the
  types pandas infers for the columns are not modelled.
\<close>

definition pd_DataFrame ::
  "('v, 'c) cell list list \<Rightarrow> string list \<Rightarrow> error + ('v, 'c) dataframe" where
  "pd_DataFrame road_data cols =
     (if road_data = [] then Inr \<lparr>columns = cols, data = []\<rparr>
      else (let k = fold max (map length road_data) 0 in
            if length cols \<noteq> k then Inl ColumnMismatch
            else Inr \<lparr>columns = cols,
                      data = map (\<lambda>row. row @ replicate (k - length row) Missing) road_data\<rparr>))"

definition extract_road_data ::
  "('v, 'c) reader \<Rightarrow> 'v list
     \<Rightarrow> error + ('c shape list \<times> ('v, 'c) dataframe \<times> 'v event list)" where
  "extract_road_data sf road_types_of_interest =
     (let fields = field_names sf; records = sf_records sf in
      case resolve_road_type_index fields road_type_candidates of
        Inl e \<Rightarrow> Inl e
      | Inr (road_type_index, printed) \<Rightarrow>
     (case column_values road_type_index records of
        Inl e \<Rightarrow> Inl e
      | Inr vs \<Rightarrow>
     (case select_shapes road_type_index (\<lambda>v. v \<in> set road_types_of_interest)
             (zip records (sf_shapes sf)) of
        Inl e \<Rightarrow> Inl e
      | Inr selected_roads \<Rightarrow>
     (case road_data_loop road_type_index road_types_of_interest
             (zip records (sf_shapes sf)) [] of
        Inl e \<Rightarrow> Inl e
      | Inr road_data \<Rightarrow>
     (case pd_DataFrame road_data
             (fields @ [''start_lat'', ''start_long'', ''end_lat'', ''end_long'']) of
        Inl e \<Rightarrow> Inl e
      | Inr df_roads \<Rightarrow>
          Inr (selected_roads, df_roads, printed @ [UniqueRoadTypes (set vs)]))))))"

section \<open>Example stores\<close>

text \<open>
  A boundary store with five features, three of them of Mumbai City (two with the same
  geometry) and one whose name differs from it in case only.
\<close>

definition example_boundaries :: "(string, int) reader" where
  "example_boundaries =
     \<lparr>sf_fields = [(''DeletionFlag'', ''C'', 1, 0), (''NAME_1'', ''C'', 50, 0),
                   (''NAME_2'', ''C'', 50, 0)],
      sf_records = [[''Maharashtra'', ''Mumbai City''], [''Maharashtra'', ''Pune''],
                    [''Maharashtra'', ''Mumbai City''], [''Maharashtra'', ''mumbai city''],
                    [''Maharashtra'', ''Mumbai City'']],
      sf_shapes = [\<lparr>shapeType = 5, points = [(4, 2), (7, 9), (4, 2)]\<rparr>,
                   \<lparr>shapeType = 5, points = [(0, 0), (50, 50)]\<rparr>,
                   \<lparr>shapeType = 5, points = [(1, 3), (7, 9)]\<rparr>,
                   \<lparr>shapeType = 5, points = [(-5, -5), (60, 60)]\<rparr>,
                   \<lparr>shapeType = 5, points = [(4, 2), (7, 9), (4, 2)]\<rparr>]\<rparr>"

text \<open>
  The same kind of store with float coordinates; the feature that is not of Mumbai City
  has a NaN.
\<close>

definition example_floats :: "(string, int pyfloat) reader" where
  "example_floats =
     \<lparr>sf_fields = [(''DeletionFlag'', ''C'', 1, 0), (''NAME_1'', ''C'', 50, 0),
                   (''NAME_2'', ''C'', 50, 0)],
      sf_records = [[''Maharashtra'', ''Mumbai City''], [''Maharashtra'', ''Pune''],
                    [''Maharashtra'', ''Mumbai City'']],
      sf_shapes = [\<lparr>shapeType = 5, points = [(Num 4, Num 2), (Num 7, Num 9), (Num 4, Num 2)]\<rparr>,
                   \<lparr>shapeType = 5, points = [(NaN, Num 0), (Num 50, Num 50)]\<rparr>,
                   \<lparr>shapeType = 5, points = [(Num 1, Num 3), (Num 7, Num 9)]\<rparr>]\<rparr>"

text \<open>A store whose features of Mumbai City are null shapes, without points.\<close>

definition example_null_shapes :: "(string, int) reader" where
  "example_null_shapes =
     \<lparr>sf_fields = [(''DeletionFlag'', ''C'', 1, 0), (''NAME_2'', ''C'', 50, 0)],
      sf_records = [[''Mumbai City''], [''Pune''], [''Mumbai City'']],
      sf_shapes = [\<lparr>shapeType = 0, points = []\<rparr>,
                   \<lparr>shapeType = 5, points = [(0, 0), (50, 50)]\<rparr>,
                   \<lparr>shapeType = 0, points = []\<rparr>]\<rparr>"

text \<open>
  A road store: a polyline, a polygon, a footway, a polyline without points and a
  polyline of one point. Both \<open>class\<close> and \<open>highway\<close> are candidates for the road type
  field; \<open>highway\<close> comes first in the candidate list and second in the schema.
\<close>

definition example_roads :: "(string, int) reader" where
  "example_roads =
     \<lparr>sf_fields = [(''DeletionFlag'', ''C'', 1, 0), (''name'', ''C'', 80, 0),
                   (''class'', ''C'', 20, 0), (''highway'', ''C'', 20, 0)],
      sf_records = [[''MG Road'', ''a'', ''primary''], [''Lake'', ''b'', ''primary''],
                    [''Path'', ''c'', ''footway''], [''Stub'', ''d'', ''residential''],
                    [''Link'', ''e'', ''residential'']],
      sf_shapes = [\<lparr>shapeType = 3, points = [(1, 2), (3, 4), (5, 6)]\<rparr>,
                   \<lparr>shapeType = 5, points = [(0, 0), (0, 1), (1, 1)]\<rparr>,
                   \<lparr>shapeType = 3, points = [(7, 7), (8, 8)]\<rparr>,
                   \<lparr>shapeType = 3, points = []\<rparr>,
                   \<lparr>shapeType = 3, points = [(9, 9)]\<rparr>]\<rparr>"

section \<open>Shared lemmas\<close>

lemmas example_defs = example_roads_def example_boundaries_def example_null_shapes_def
  example_floats_def field_names_def

lemma list_index_Some_iff:
  "list_index xs x = Some i \<longleftrightarrow> i < length xs \<and> xs ! i = x \<and> (\<forall>j<i. xs ! j \<noteq> x)"
proof (induction xs arbitrary: i)
  case Nil
  show ?case by simp
next
  case (Cons y ys)
  show ?case
  proof (cases "y = x")
    case True
    then show ?thesis by (cases i) auto
  next
    case False
    show ?thesis
    proof (cases i)
      case 0
      with False show ?thesis by simp
    next
      case (Suc k)
      have "(\<forall>j<Suc k. (y # ys) ! j \<noteq> x) \<longleftrightarrow> (\<forall>j<k. ys ! j \<noteq> x)"
        using False by (auto simp: less_Suc_eq_0_disj)
      with False Suc Cons.IH [of k] show ?thesis by auto
    qed
  qed
qed

lemma list_index_None_iff: "list_index xs x = None \<longleftrightarrow> x \<notin> set xs"
  by (induction xs) auto

lemma list_index_mem: "x \<in> set xs \<Longrightarrow> \<exists>i. list_index xs x = Some i"
  using list_index_None_iff [of xs x] by (cases "list_index xs x") simp_all

lemma select_shapes_filter:
  "(\<And>r. r \<in> set (map fst zs) \<Longrightarrow> i < length r) \<Longrightarrow>
   select_shapes i P zs = Inr (map snd (filter (\<lambda>(r, s). P (r ! i)) zs))"
  by (induction zs) (auto simp: getitem_def)

lemma select_shapes_zip:
  "\<forall>r\<in>set rs. i < length r \<Longrightarrow>
   select_shapes i P (zip rs ss) = Inr (map snd (filter (\<lambda>(r, s). P (r ! i)) (zip rs ss)))"
  by (rule select_shapes_filter) (auto dest: set_zip_leftD)

lemma map_snd_filter_zip_nths:
  "map snd (filter (\<lambda>(r, s). Q r s) (zip rs ss)) =
   nths ss {k. k < length rs \<and> Q (rs ! k) (ss ! k)}"
proof (induction rs arbitrary: ss)
  case Nil
  show ?case by simp
next
  case (Cons r rs)
  show ?case
  proof (cases ss)
    case Nil
    then show ?thesis by simp
  next
    case (Cons s ss')
    have "{j. Suc j \<in> {k. k < length (r # rs) \<and> Q ((r # rs) ! k) ((s # ss') ! k)}}
          = {k. k < length rs \<and> Q (rs ! k) (ss' ! k)}"
      by simp
    with Cons.IH [of ss'] Cons show ?thesis
      by (simp add: nths_Cons)
  qed
qed


subsection \<open>Minimum and maximum\<close>

text \<open>On a linear order Python's \<^verbatim>\<open>min\<close> and \<^verbatim>\<open>max\<close> are the least and the greatest element.\<close>

lemma fold_lt_eq_Min:
  "fold (\<lambda>item m. if item < m then item else m) xs (x::'c::linorder) = Min (set (x # xs))"
proof -
  have "(\<lambda>item m. if item < m then item else m) = (min :: 'c \<Rightarrow> 'c \<Rightarrow> 'c)"
    by (auto simp: fun_eq_iff min_def)
  then show ?thesis by (simp only: Min.set_eq_fold)
qed

lemma fold_gt_eq_Max:
  "fold (\<lambda>item m. if item > m then item else m) xs (x::'c::linorder) = Max (set (x # xs))"
proof -
  have "(\<lambda>item m. if item > m then item else m) = (max :: 'c \<Rightarrow> 'c \<Rightarrow> 'c)"
    by (auto simp: fun_eq_iff max_def)
  then show ?thesis by (simp only: Max.set_eq_fold)
qed

lemma py_min_Min: "xs \<noteq> [] \<Longrightarrow> py_min xs = Inr (Min (set (xs :: 'c::linorder list)))"
  by (cases xs) (simp_all only: py_min.simps fold_lt_eq_Min)

lemma py_max_Max: "xs \<noteq> [] \<Longrightarrow> py_max xs = Inr (Max (set (xs :: 'c::linorder list)))"
  by (cases xs) (simp_all only: py_max.simps fold_gt_eq_Max)

lemma calc_bbox_linorder:
  fixes ps :: "('c::linorder) point list"
  shows "ps \<noteq> [] \<Longrightarrow>
   calc_bbox ps = Inr (Min (fst ` set ps), Min (snd ` set ps), Max (fst ` set ps), Max (snd ` set ps))"
  by (simp add: calc_bbox_def py_min_Min py_max_Max)

lemma calc_bbox_empty: "calc_bbox [] = Inl EmptyGeometry"
  by (simp add: calc_bbox_def)

text \<open>The comparisons of floats, and the extrema of floats none of which is NaN.\<close>

lemma less_pyfloat_simps [simp]:
  "Num a < Num b \<longleftrightarrow> a < b" "\<not> NaN < x" "\<not> x < NaN"
  by (simp_all add: less_pyfloat_def split: pyfloat.splits)

lemma less_eq_pyfloat_simps [simp]:
  "Num a \<le> Num b \<longleftrightarrow> a \<le> b" "\<not> NaN \<le> x" "\<not> x \<le> NaN"
  by (simp_all add: less_eq_pyfloat_def split: pyfloat.splits)

lemma fold_lt_Num:
  "fold (\<lambda>item m. if item < m then item else m) (map Num ys) (Num y)
     = Num (fold (\<lambda>item m. if item < m then item else m) ys y)"
  by (induction ys arbitrary: y) simp_all

lemma fold_gt_Num:
  "fold (\<lambda>item m. if item > m then item else m) (map Num ys) (Num y)
     = Num (fold (\<lambda>item m. if item > m then item else m) ys y)"
  by (induction ys arbitrary: y) simp_all

lemma map_Num_the_Num: "NaN \<notin> set xs \<Longrightarrow> map Num (map the_Num xs) = xs"
  by (induction xs) auto

lemma py_min_Num:
  fixes xs :: "'a::linorder pyfloat list"
  assumes nonan: "NaN \<notin> set xs" and ne: "xs \<noteq> []"
  shows "py_min xs = Inr (Num (Min (the_Num ` set xs)))"
proof -
  from ne obtain y ys where ys: "map the_Num xs = y # ys"
    by (cases xs) simp_all
  have "py_min (map Num (y # ys)) = Inr (Num (Min (set (y # ys))))"
    by (simp only: list.map py_min.simps fold_lt_Num fold_lt_eq_Min)
  then have "py_min (map Num (map the_Num xs)) = Inr (Num (Min (set (map the_Num xs))))"
    by (simp only: ys)
  then show ?thesis
    unfolding map_Num_the_Num [OF nonan] by simp
qed

lemma py_max_Num:
  fixes xs :: "'a::linorder pyfloat list"
  assumes nonan: "NaN \<notin> set xs" and ne: "xs \<noteq> []"
  shows "py_max xs = Inr (Num (Max (the_Num ` set xs)))"
proof -
  from ne obtain y ys where ys: "map the_Num xs = y # ys"
    by (cases xs) simp_all
  have "py_max (map Num (y # ys)) = Inr (Num (Max (set (y # ys))))"
    by (simp only: list.map py_max.simps fold_gt_Num fold_gt_eq_Max)
  then have "py_max (map Num (map the_Num xs)) = Inr (Num (Max (set (map the_Num xs))))"
    by (simp only: ys)
  then show ?thesis
    unfolding map_Num_the_Num [OF nonan] by simp
qed

lemma calc_bbox_Num:
  fixes ps :: "('a::linorder pyfloat) point list"
  assumes ne: "ps \<noteq> []" and nonan: "NaN \<notin> fst ` set ps \<union> snd ` set ps"
  shows "calc_bbox ps =
     Inr (Num (Min (the_Num ` fst ` set ps)), Num (Min (the_Num ` snd ` set ps)),
          Num (Max (the_Num ` fst ` set ps)), Num (Max (the_Num ` snd ` set ps)))"
proof -
  from nonan have x: "NaN \<notin> set (map fst ps)" and y: "NaN \<notin> set (map snd ps)"
    by simp_all
  from ne have nx: "map fst ps \<noteq> []" and ny: "map snd ps \<noteq> []"
    by simp_all
  show ?thesis
    by (simp add: calc_bbox_def py_min_Num [OF x nx] py_min_Num [OF y ny]
        py_max_Num [OF x nx] py_max_Num [OF y ny])
qed

section \<open>Boundary extraction: the claims\<close>

text \<open>
  Claim C1, amended. When the city field is in the schema at index \<open>i\<close>, every record
  reaches that index, the shapes selected for the city have at least one point between
  them, and no coordinate of a selected point is NaN, \<^verbatim>\<open>_extract_city_boundaries\<close> returns
  the selected shapes with the bounding box \<open>(min_x, min_y, max_x, max_y)\<close> of all their
  points: every selected point lies inside it under the floats' own comparison, each of
  the four extrema is the coordinate of some selected point, and the box is a function of
  the set \<open>P\<close> of selected points only, so a point that occurs twice changes nothing.
  Shapes that are not selected may hold any coordinates.
\<close>

theorem extract_city_boundaries_bbox:
  fixes sf :: "('v, 'a::linorder pyfloat) reader"
  assumes idx: "list_index (field_names sf) city_field_name = Some i"
    and len: "\<forall>r\<in>set (sf_records sf). i < length r"
    and sel: "city_shapes =
        map snd (filter (\<lambda>(r, s). r ! i = city_name) (zip (sf_records sf) (sf_shapes sf)))"
    and pts: "P = (\<Union>s\<in>set city_shapes. set (points s))"
    and ne: "P \<noteq> {}"
    and nonan: "NaN \<notin> fst ` P \<union> snd ` P"
    and X: "X = the_Num ` fst ` P" and Y: "Y = the_Num ` snd ` P"
  shows "extract_city_boundaries sf city_name city_field_name =
           Inr (city_shapes, (Num (Min X), Num (Min Y), Num (Max X), Num (Max Y)))
       \<and> (\<forall>(x, y)\<in>P. Num (Min X) \<le> x \<and> x \<le> Num (Max X)
                     \<and> Num (Min Y) \<le> y \<and> y \<le> Num (Max Y))
       \<and> (\<exists>p\<in>P. fst p = Num (Min X)) \<and> (\<exists>p\<in>P. snd p = Num (Min Y))
       \<and> (\<exists>p\<in>P. fst p = Num (Max X)) \<and> (\<exists>p\<in>P. snd p = Num (Max Y))"
proof -
  have fin: "finite P"
    unfolding pts by simp
  have P_eq: "set (concat (map points city_shapes)) = P"
    unfolding pts by auto
  with ne have ne_pts: "concat (map points city_shapes) \<noteq> []"
    by auto
  then have ne_sel: "city_shapes \<noteq> []"
    by auto
  have box: "calc_bbox (concat (map points city_shapes)) =
      Inr (Num (Min X), Num (Min Y), Num (Max X), Num (Max Y))"
    using calc_bbox_Num [OF ne_pts] nonan unfolding P_eq X Y by simp
  have "select_shapes i (\<lambda>v. v = city_name) (zip (sf_records sf) (sf_shapes sf)) = Inr city_shapes"
    unfolding sel using len by (rule select_shapes_zip)
  then have res: "extract_city_boundaries sf city_name city_field_name =
           Inr (city_shapes, (Num (Min X), Num (Min Y), Num (Max X), Num (Max Y)))"
    using idx ne_sel box by (simp add: extract_city_boundaries_def)
  have num: "\<And>f p. f = fst \<or> f = snd \<Longrightarrow> p \<in> P \<Longrightarrow> f p = Num (the_Num (f p))"
  proof -
    fix f :: "'a pyfloat \<times> 'a pyfloat \<Rightarrow> 'a pyfloat" and p
    assume "f = fst \<or> f = snd" and "p \<in> P"
    with nonan have "f p \<noteq> NaN"
      by (auto simp: image_iff)
    then show "f p = Num (the_Num (f p))"
      by (cases "f p") simp_all
  qed
  have bounds: "\<forall>(x, y)\<in>P. Num (Min X) \<le> x \<and> x \<le> Num (Max X)
                     \<and> Num (Min Y) \<le> y \<and> y \<le> Num (Max Y)"
  proof (clarify, intro conjI)
    fix x y assume xy: "(x, y) \<in> P"
    from num [of fst, OF _ xy] have x: "x = Num (the_Num x)"
      by simp
    from num [of snd, OF _ xy] have y: "y = Num (the_Num y)"
      by simp
    from xy have inX: "the_Num x \<in> X" and inY: "the_Num y \<in> Y"
      unfolding X Y by force+
    have finX: "finite X" and finY: "finite Y"
      unfolding X Y using fin by simp_all
    from finX inX have "Min X \<le> the_Num x" and "the_Num x \<le> Max X"
      by simp_all
    then show "Num (Min X) \<le> x" and "x \<le> Num (Max X)"
      by (subst x, simp)+
    from finY inY have "Min Y \<le> the_Num y" and "the_Num y \<le> Max Y"
      by simp_all
    then show "Num (Min Y) \<le> y" and "y \<le> Num (Max Y)"
      by (subst y, simp)+
  qed
  have tight: "\<And>f. f = fst \<or> f = snd \<Longrightarrow>
      (\<exists>p\<in>P. f p = Num (Min (the_Num ` f ` P))) \<and> (\<exists>p\<in>P. f p = Num (Max (the_Num ` f ` P)))"
  proof -
    fix f :: "'a pyfloat \<times> 'a pyfloat \<Rightarrow> 'a pyfloat"
    assume f: "f = fst \<or> f = snd"
    have "Min (the_Num ` f ` P) \<in> the_Num ` f ` P" and "Max (the_Num ` f ` P) \<in> the_Num ` f ` P"
      using fin ne by (simp_all add: Min_in Max_in)
    then obtain p q where p: "p \<in> P" "the_Num (f p) = Min (the_Num ` f ` P)"
      and q: "q \<in> P" "the_Num (f q) = Max (the_Num ` f ` P)"
      by auto
    from num [OF f p(1)] p(2) have "f p = Num (Min (the_Num ` f ` P))"
      by simp
    moreover from num [OF f q(1)] q(2) have "f q = Num (Max (the_Num ` f ` P))"
      by simp
    ultimately show "(\<exists>p\<in>P. f p = Num (Min (the_Num ` f ` P)))
        \<and> (\<exists>p\<in>P. f p = Num (Max (the_Num ` f ` P)))"
      using p(1) q(1) by blast
  qed
  from res bounds tight [of fst] tight [of snd] show ?thesis
    unfolding X Y by blast
qed

theorem extract_city_boundaries_bbox_witness:
  "extract_city_boundaries example_floats ''Mumbai City'' ''NAME_2''
   = Inr ([\<lparr>shapeType = 5, points = [(Num 4, Num 2), (Num 7, Num 9), (Num 4, Num 2)]\<rparr>,
           \<lparr>shapeType = 5, points = [(Num 1, Num 3), (Num 7, Num 9)]\<rparr>],
          (Num 1, Num 2, Num 7, Num 9))"
proof -
  let ?sf = example_floats
  let ?sel = "map snd (filter (\<lambda>(r, s). r ! 1 = ''Mumbai City'')
                 (zip (sf_records ?sf) (sf_shapes ?sf)))"
  let ?P = "\<Union>s\<in>set ?sel. set (points s)"
  have idx: "list_index (field_names ?sf) ''NAME_2'' = Some 1"
    by (simp add: example_defs)
  have len: "\<forall>r\<in>set (sf_records ?sf). 1 < length r"
    by (simp add: example_defs)
  have P: "?P = {(Num 4, Num 2), (Num 7, Num 9), (Num 1, Num 3)}"
    by (auto simp: example_defs)
  have ne: "?P \<noteq> {}"
    unfolding P by simp
  have nonan: "NaN \<notin> fst ` ?P \<union> snd ` ?P"
    unfolding P by simp
  have sel: "?sel = [\<lparr>shapeType = 5, points = [(Num 4, Num 2), (Num 7, Num 9), (Num 4, Num 2)]\<rparr>,
           \<lparr>shapeType = 5, points = [(Num 1, Num 3), (Num 7, Num 9)]\<rparr>]"
    by (simp add: example_defs)
  show ?thesis
    using extract_city_boundaries_bbox [OF idx len refl refl ne nonan refl refl]
    unfolding P sel by simp
qed

theorem extract_city_boundaries_bbox_nan:
  "extract_city_boundaries
     \<lparr>sf_fields = [(''DeletionFlag'', ''C'', 1, 0), (''NAME_2'', ''C'', 50, 0)],
      sf_records = [[''Mumbai City'']],
      sf_shapes = [\<lparr>shapeType = 5,
                    points = [(NaN, Num 1), (Num 5, Num 2), (Num 3, Num 3), (Num (4 :: int), Num 4)]\<rparr>]\<rparr>
     ''Mumbai City'' ''NAME_2''
   = Inr ([\<lparr>shapeType = 5,
             points = [(NaN, Num 1), (Num 5, Num 2), (Num 3, Num 3), (Num 4, Num 4)]\<rparr>],
          (NaN, Num 1, NaN, Num 4))
   \<and> \<not> (NaN \<le> Num (5 :: int) \<and> Num (5 :: int) \<le> NaN)
   \<and> extract_city_boundaries
     \<lparr>sf_fields = [(''DeletionFlag'', ''C'', 1, 0), (''NAME_2'', ''C'', 50, 0)],
      sf_records = [[''Mumbai City'']],
      sf_shapes = [\<lparr>shapeType = 5,
                    points = [(Num 5, Num 2), (NaN, Num 1), (Num 3, Num 3), (Num (4 :: int), Num 4)]\<rparr>]\<rparr>
     ''Mumbai City'' ''NAME_2''
   = Inr ([\<lparr>shapeType = 5,
             points = [(Num 5, Num 2), (NaN, Num 1), (Num 3, Num 3), (Num 4, Num 4)]\<rparr>],
          (Num 3, Num 1, Num 5, Num 4))
   \<and> \<not> (Num (3 :: int) \<le> NaN \<and> NaN \<le> Num (5 :: int))
   \<and> set [(NaN, Num 1), (Num 5, Num 2), (Num 3, Num 3), (Num (4 :: int), Num 4)]
     = set [(Num 5, Num 2), (NaN, Num 1), (Num 3, Num 3), (Num 4, Num 4)]"
  by (auto simp: extract_city_boundaries_def field_names_def getitem_def calc_bbox_def)

text \<open>
  Claim C5. When the requested field is in the schema at index \<open>i\<close>, every record reaches
  that index, and no record has the target value there, \<^verbatim>\<open>_extract_city_boundaries\<close>
  fails with RegionNotFound and returns no shapes and no bounding box. When the field is
  not in the schema, the failure is FieldNotFound, whatever the records are, and the two
  failures are different.
\<close>

theorem extract_city_boundaries_region_not_found:
  fixes sf sf' :: "('v, 'c::ord) reader"
  assumes idx: "list_index (field_names sf) city_field_name = Some i"
    and len: "\<forall>r\<in>set (sf_records sf). i < length r"
    and nomatch: "\<forall>r\<in>set (sf_records sf). r ! i \<noteq> city_name"
  shows "extract_city_boundaries sf city_name city_field_name = Inl RegionNotFound
       \<and> (\<forall>res. extract_city_boundaries sf city_name city_field_name \<noteq> Inr res)
       \<and> (field_name' \<notin> set (field_names sf') \<longrightarrow>
            extract_city_boundaries sf' city_name' field_name' = Inl FieldNotFound)
       \<and> RegionNotFound \<noteq> FieldNotFound"
proof -
  let ?zs = "zip (sf_records sf) (sf_shapes sf)"
  have "filter (\<lambda>(r, s). r ! i = city_name) ?zs = []"
    using nomatch by (auto simp: filter_empty_conv dest: set_zip_leftD)
  then have "select_shapes i (\<lambda>v. v = city_name) ?zs = Inr []"
    using select_shapes_zip [OF len, of "\<lambda>v. v = city_name" "sf_shapes sf"] by simp
  with idx have 1: "extract_city_boundaries sf city_name city_field_name = Inl RegionNotFound"
    by (simp add: extract_city_boundaries_def)
  have 2: "field_name' \<notin> set (field_names sf') \<longrightarrow>
            extract_city_boundaries sf' city_name' field_name' = Inl FieldNotFound"
    by (simp add: extract_city_boundaries_def list_index_None_iff [symmetric])
  from 1 2 show ?thesis by simp
qed

theorem extract_city_boundaries_region_not_found_witness:
  "extract_city_boundaries example_boundaries ''Thane'' ''NAME_2'' = Inl RegionNotFound
   \<and> extract_city_boundaries example_boundaries ''Thane'' ''NAME_3'' = Inl FieldNotFound"
proof -
  have idx: "list_index (field_names example_boundaries) ''NAME_2'' = Some 1"
    by (simp add: example_defs)
  have len: "\<forall>r\<in>set (sf_records example_boundaries). 1 < length r"
    by (simp add: example_defs)
  have nomatch: "\<forall>r\<in>set (sf_records example_boundaries). r ! 1 \<noteq> ''Thane''"
    by (simp add: example_defs)
  have missing: "''NAME_3'' \<notin> set (field_names example_boundaries)"
    by (simp add: example_defs)
  from extract_city_boundaries_region_not_found [OF idx len nomatch,
      of "''NAME_3''" example_boundaries "''Thane''"] missing
  show ?thesis
    by blast
qed

lemma calc_bbox_returns: "ps \<noteq> [] \<Longrightarrow> \<exists>bbox. calc_bbox ps = Inr bbox"
  by (cases ps) (simp_all add: calc_bbox_def)

text \<open>
  Claim C7. When the requested field is in the schema at index \<open>i\<close> and every record
  reaches that index, the comprehension of \<^verbatim>\<open>_extract_city_boundaries\<close> selects the shapes
  at exactly the positions \<open>k\<close> whose record has a value equal to the target at \<open>i\<close>, in
  the order of the store and as often as they occur; equality is that of the values, so
  a name that differs in case is not selected. Whenever the function returns, the shapes
  it returns are these, and it returns as soon as these shapes have a point.
\<close>

theorem extract_city_boundaries_selection:
  fixes sf :: "('v, 'c::ord) reader"
  assumes idx: "list_index (field_names sf) city_field_name = Some i"
    and len: "\<forall>r\<in>set (sf_records sf). i < length r"
    and sel: "sel = nths (sf_shapes sf)
                {k. k < length (sf_records sf) \<and> sf_records sf ! k ! i = city_name}"
  shows "select_shapes i (\<lambda>v. v = city_name) (zip (sf_records sf) (sf_shapes sf)) = Inr sel
       \<and> (\<forall>city_shapes bbox.
             extract_city_boundaries sf city_name city_field_name = Inr (city_shapes, bbox) \<longrightarrow>
             city_shapes = sel)
       \<and> (concat (map points sel) \<noteq> [] \<longrightarrow>
            (\<exists>bbox. extract_city_boundaries sf city_name city_field_name = Inr (sel, bbox)))"
proof -
  let ?zs = "zip (sf_records sf) (sf_shapes sf)"
  have "map snd (filter (\<lambda>(r, s). r ! i = city_name) ?zs) = sel"
    unfolding sel by (rule map_snd_filter_zip_nths [of "\<lambda>r s. r ! i = city_name"])
  with select_shapes_zip [OF len, of "\<lambda>v. v = city_name" "sf_shapes sf"]
  have 1: "select_shapes i (\<lambda>v. v = city_name) ?zs = Inr sel"
    by simp
  with idx have 2: "\<forall>city_shapes bbox.
       extract_city_boundaries sf city_name city_field_name = Inr (city_shapes, bbox) \<longrightarrow>
       city_shapes = sel"
    by (auto simp: extract_city_boundaries_def split: if_splits sum.splits)
  have 3: "concat (map points sel) \<noteq> [] \<longrightarrow>
            (\<exists>bbox. extract_city_boundaries sf city_name city_field_name = Inr (sel, bbox))"
  proof
    assume pts: "concat (map points sel) \<noteq> []"
    then have ne: "sel \<noteq> []"
      by auto
    from calc_bbox_returns [OF pts] obtain bbox
      where "calc_bbox (concat (map points sel)) = Inr bbox" ..
    with idx 1 ne have "extract_city_boundaries sf city_name city_field_name = Inr (sel, bbox)"
      by (simp add: extract_city_boundaries_def)
    then show "\<exists>bbox. extract_city_boundaries sf city_name city_field_name = Inr (sel, bbox)" ..
  qed
  from 1 2 3 show ?thesis by simp
qed

theorem extract_city_boundaries_selection_witness:
  "\<exists>bbox. extract_city_boundaries example_boundaries ''Mumbai City'' ''NAME_2''
      = Inr ([\<lparr>shapeType = 5, points = [(4, 2), (7, 9), (4, 2)]\<rparr>,
              \<lparr>shapeType = 5, points = [(1, 3), (7, 9)]\<rparr>,
              \<lparr>shapeType = 5, points = [(4, 2), (7, 9), (4, 2)]\<rparr>], bbox)"
proof -
  have idx: "list_index (field_names example_boundaries) ''NAME_2'' = Some 1"
    by (simp add: example_defs)
  have len: "\<forall>r\<in>set (sf_records example_boundaries). 1 < length r"
    by (simp add: example_defs)
  have sel: "[\<lparr>shapeType = 5, points = [(4, 2), (7, 9), (4, 2)]\<rparr>,
           \<lparr>shapeType = 5, points = [(1, 3), (7, 9)]\<rparr>,
           \<lparr>shapeType = 5, points = [(4, 2), (7, 9), (4, 2 :: int)]\<rparr>]
        = nths (sf_shapes example_boundaries)
               {k. k < length (sf_records example_boundaries)
                   \<and> sf_records example_boundaries ! k ! 1 = ''Mumbai City''}"
    using map_snd_filter_zip_nths [of "\<lambda>r s. r ! 1 = ''Mumbai City''"
        "sf_records example_boundaries" "sf_shapes example_boundaries"]
    by (simp add: example_defs)
  from extract_city_boundaries_selection [OF idx len sel]
  show ?thesis
    by simp
qed

text \<open>
  Claim C9. When the shapes selected for the city are at least one and have no point
  between them, \<^verbatim>\<open>_extract_city_boundaries\<close> fails with EmptyGeometry, the ValueError of
  \<^verbatim>\<open>min\<close> on an empty sequence, and returns no bounding box.
\<close>

theorem extract_city_boundaries_empty_geometry:
  fixes sf :: "('v, 'c::ord) reader"
  assumes idx: "list_index (field_names sf) city_field_name = Some i"
    and len: "\<forall>r\<in>set (sf_records sf). i < length r"
    and sel: "city_shapes =
        map snd (filter (\<lambda>(r, s). r ! i = city_name) (zip (sf_records sf) (sf_shapes sf)))"
    and ne: "city_shapes \<noteq> []"
    and nopts: "(\<Union>s\<in>set city_shapes. set (points s)) = {}"
  shows "extract_city_boundaries sf city_name city_field_name = Inl EmptyGeometry
       \<and> (\<forall>res. extract_city_boundaries sf city_name city_field_name \<noteq> Inr res)"
proof -
  have "select_shapes i (\<lambda>v. v = city_name) (zip (sf_records sf) (sf_shapes sf)) = Inr city_shapes"
    unfolding sel using len by (rule select_shapes_zip)
  moreover have e: "concat (map points city_shapes) = []"
    using nopts by simp
  have "calc_bbox (concat (map points city_shapes)) = Inl EmptyGeometry"
    unfolding e by (rule calc_bbox_empty)
  ultimately have "extract_city_boundaries sf city_name city_field_name = Inl EmptyGeometry"
    using idx ne by (simp add: extract_city_boundaries_def)
  then show ?thesis by simp
qed

theorem extract_city_boundaries_empty_geometry_witness:
  "extract_city_boundaries example_null_shapes ''Mumbai City'' ''NAME_2'' = Inl EmptyGeometry"
proof -
  have idx: "list_index (field_names example_null_shapes) ''NAME_2'' = Some 0"
    by (simp add: example_defs)
  have len: "\<forall>r\<in>set (sf_records example_null_shapes). 0 < length r"
    by (simp add: example_defs)
  let ?sel = "map snd (filter (\<lambda>(r, s). r ! 0 = ''Mumbai City'')
                 (zip (sf_records example_null_shapes) (sf_shapes example_null_shapes)))"
  have ne: "?sel \<noteq> []"
    by (simp add: example_defs)
  have nopts: "(\<Union>s\<in>set ?sel. set (points s)) = {}"
    by (simp add: example_defs)
  from extract_city_boundaries_empty_geometry [OF idx len refl ne nopts]
  show ?thesis
    by (rule conjunct1)
qed

section \<open>The extraction URL: the claim\<close>






section \<open>Road classification: lemmas\<close>

lemma find_candidate_first:
  "set pre \<inter> set flds = {} \<Longrightarrow> c \<in> set flds \<Longrightarrow>
   find_candidate flds (pre @ c # post) = Some c"
  by (induction pre) simp_all

lemma find_candidate_mem: "find_candidate flds cs = Some c \<Longrightarrow> c \<in> set flds"
  by (induction cs) (simp_all split: if_splits)

lemma find_candidate_None: "set cs \<inter> set flds = {} \<Longrightarrow> find_candidate flds cs = None"
  by (induction cs) simp_all

lemma resolve_road_type_index_fallback:
  "find_candidate (f # fs) cs = None \<Longrightarrow>
   resolve_road_type_index (f # fs) cs =
     Inr (0, [NoRoadTypeField (f # fs), UsingFirstFieldFallback, UsingField f])"
  by (simp add: resolve_road_type_index_def)

lemma resolve_road_type_index_found:
  "find_candidate flds cs = Some c \<Longrightarrow> list_index flds c = Some i \<Longrightarrow>
   resolve_road_type_index flds cs = Inr (i, [UsingField c])"
  by (simp add: resolve_road_type_index_def)

text \<open>On a schema that is not empty the resolution of the road type field succeeds.\<close>

lemma resolve_road_type_index_total:
  assumes "flds \<noteq> []"
  shows "\<exists>i printed. (resolve_road_type_index flds cs :: error + nat \<times> 'v event list)
            = Inr (i, printed) \<and> i < length flds"
proof (cases "find_candidate flds cs")
  case None
  from assms obtain f fs where flds: "flds = f # fs"
    by (cases flds) simp_all
  from None have "(resolve_road_type_index flds cs :: error + nat \<times> 'v event list) =
          Inr (0, [NoRoadTypeField flds, UsingFirstFieldFallback, UsingField f])"
    unfolding flds by (rule resolve_road_type_index_fallback)
  moreover have "0 < length flds"
    using assms by simp
  ultimately show ?thesis
    by (intro exI conjI)
next
  case (Some c)
  then have "c \<in> set flds"
    by (rule find_candidate_mem)
  then have "\<exists>i. list_index flds c = Some i"
    by (rule list_index_mem)
  then obtain i where i: "list_index flds c = Some i" ..
  have "(resolve_road_type_index flds cs :: error + nat \<times> 'v event list)
      = Inr (i, [UsingField c])"
    using Some i by (rule resolve_road_type_index_found)
  moreover from i have "i < length flds"
    by (simp add: list_index_Some_iff)
  ultimately show ?thesis
    by (intro exI conjI)
qed

lemma column_values_map:
  "\<forall>r\<in>set rs. i < length r \<Longrightarrow> column_values i rs = Inr (map (\<lambda>r. r ! i) rs)"
  by (induction rs) (simp_all add: getitem_def)

lemma road_row_eq:
  "road_row r s =
     map Attr r @ [Coord (fst (hd (points s))), Coord (snd (hd (points s))),
                   Coord (fst (last (points s))), Coord (snd (last (points s)))]"
  by (simp add: road_row_def case_prod_beta)

lemma road_data_loop_filter:
  "\<forall>r\<in>fst ` set zs. i < length r \<Longrightarrow>
   road_data_loop i types zs acc =
     Inr (acc @ map (\<lambda>(r, s). road_row r s)
                  (filter (\<lambda>(r, s). r ! i \<in> set types \<and> shapeType s = 3 \<and> points s \<noteq> []) zs))"
proof (induction zs arbitrary: acc)
  case Nil
  show ?case by simp
next
  case (Cons z zs)
  obtain r s where z: "z = (r, s)"
    by (cases z)
  from Cons.prems z have r: "i < length r" and rest: "\<forall>r\<in>fst ` set zs. i < length r"
    by simp_all
  note IH = Cons.IH [OF rest]
  show ?case
    unfolding z by (simp add: getitem_def r IH)
qed

lemma road_data_loop_zip:
  "\<forall>r\<in>set rs. i < length r \<Longrightarrow>
   road_data_loop i types (zip rs ss) [] =
     Inr (map (\<lambda>(r, s). road_row r s)
            (filter (\<lambda>(r, s). r ! i \<in> set types \<and> shapeType s = 3 \<and> points s \<noteq> []) (zip rs ss)))"
proof -
  assume len: "\<forall>r\<in>set rs. i < length r"
  have "\<forall>r\<in>fst ` set (zip rs ss). i < length r"
    using len by (auto dest: set_zip_leftD)
  from road_data_loop_filter [OF this, of types "[]"] show ?thesis
    by simp
qed

text \<open>Rows that all have the width of the column list make the frame as they are.\<close>

lemma fold_max_const:
  "\<forall>x\<in>set xs. x = n \<Longrightarrow> xs \<noteq> [] \<Longrightarrow> a \<le> n \<Longrightarrow> fold max xs a = (n::nat)"
proof (induction xs arbitrary: a)
  case Nil
  then show ?case by simp
next
  case (Cons x xs)
  then have x: "x = n"
    by simp
  show ?case
  proof (cases "xs = []")
    case True
    with x Cons.prems(3) show ?thesis
      by (simp add: max_def)
  next
    case False
    from Cons.prems(1) have "\<forall>x\<in>set xs. x = n"
      by simp
    from Cons.IH [OF this False, of "max x a"] x Cons.prems(3) show ?thesis
      by (simp add: max_def)
  qed
qed

lemma pd_DataFrame_rect:
  assumes "\<forall>row\<in>set rows. length row = length cols"
  shows "pd_DataFrame rows cols = Inr \<lparr>columns = cols, data = rows\<rparr>"
proof (cases "rows = []")
  case True
  then show ?thesis
    by (simp add: pd_DataFrame_def)
next
  case False
  have k: "fold max (map length rows) 0 = length cols"
    using assms False by (intro fold_max_const) simp_all
  have "map (\<lambda>row. row @ replicate (length cols - length row) Missing) rows = rows"
    using assms by (simp add: map_idI)
  with False k show ?thesis
    by (simp add: pd_DataFrame_def)
qed

text \<open>
  The whole of \<^verbatim>\<open>_extract_road_data\<close> on a store whose records have one value for each
  field of the schema, once the road type field is resolved.
\<close>

lemma extract_road_data_eq:
  assumes res: "resolve_road_type_index (field_names sf) road_type_candidates = Inr (i, printed)"
    and i: "i < length (field_names sf)"
    and len: "\<forall>r\<in>set (sf_records sf). length r = length (field_names sf)"
  shows "extract_road_data sf types =
    Inr (map snd (filter (\<lambda>(r, s). r ! i \<in> set types) (zip (sf_records sf) (sf_shapes sf))),
         \<lparr>columns = field_names sf @ [''start_lat'', ''start_long'', ''end_lat'', ''end_long''],
          data = map (\<lambda>(r, s). road_row r s)
                   (filter (\<lambda>(r, s). r ! i \<in> set types \<and> shapeType s = 3 \<and> points s \<noteq> [])
                      (zip (sf_records sf) (sf_shapes sf)))\<rparr>,
         printed @ [UniqueRoadTypes ((\<lambda>r. r ! i) ` set (sf_records sf))])"
proof -
  let ?cols = "field_names sf @ [''start_lat'', ''start_long'', ''end_lat'', ''end_long'']"
  let ?rows = "map (\<lambda>(r, s). road_row r s)
                   (filter (\<lambda>(r, s). r ! i \<in> set types \<and> shapeType s = 3 \<and> points s \<noteq> [])
                      (zip (sf_records sf) (sf_shapes sf)))"
  from i len have long: "\<forall>r\<in>set (sf_records sf). i < length r"
    by simp
  have 1: "column_values i (sf_records sf) = Inr (map (\<lambda>r. r ! i) (sf_records sf))"
    using long by (rule column_values_map)
  note 2 = select_shapes_zip [OF long, of "\<lambda>v. v \<in> set types" "sf_shapes sf"]
  note 3 = road_data_loop_zip [OF long, of types "sf_shapes sf"]
  have "\<forall>row\<in>set ?rows. length row = length ?cols"
  proof
    fix row assume "row \<in> set ?rows"
    then obtain r s where row: "row = road_row r s" and "r \<in> set (sf_records sf)"
      by (auto dest: set_zip_leftD)
    with len have "length r = length (field_names sf)"
      by simp
    then show "length row = length ?cols"
      by (simp add: row road_row_eq)
  qed
  then have 4: "pd_DataFrame ?rows ?cols = Inr \<lparr>columns = ?cols, data = ?rows\<rparr>"
    by (rule pd_DataFrame_rect)
  show ?thesis
    by (simp add: extract_road_data_def Let_def res 1 2 3 4)
qed

lemma length_filter_conj_le:
  "length (filter (\<lambda>z. P z \<and> Q z) zs) \<le> length (filter P zs)"
  by (induction zs) auto

lemma length_filter_conj_eq:
  "length (filter (\<lambda>z. P z \<and> Q z) zs) = length (filter P zs) \<longleftrightarrow> (\<forall>z\<in>set zs. P z \<longrightarrow> Q z)"
proof (induction zs)
  case Nil
  show ?case by simp
next
  case (Cons z zs)
  have le: "length (filter (\<lambda>z. P z \<and> Q z) zs) \<le> length (filter P zs)"
    by (rule length_filter_conj_le)
  show ?case
  proof (cases "P z \<and> \<not> Q z")
    case True
    with le show ?thesis by auto
  next
    case False
    with Cons.IH show ?thesis by auto
  qed
qed

section \<open>Road classification: the claims\<close>

text \<open>
  Claim C2. On a store whose schema is not empty (on an empty schema \<^verbatim>\<open>fields[0]\<close>
  raises) and whose records have one value for each field, \<^verbatim>\<open>_extract_road_data\<close>
  returns, for the road type field resolved at index \<open>i\<close>: as the list for rendering, the
  shapes of exactly the pairs whose value at \<open>i\<close> is among the types of interest; as the
  rows of the table, one row for exactly those of these pairs whose shape has type 3 and
  at least one point. So there are at most as many rows as shapes for rendering, and as
  many exactly when every pair of a type of interest is a polyline with points.
\<close>

theorem extract_road_data_selection:
  fixes sf :: "('v, 'c) reader"
  assumes ne: "field_names sf \<noteq> []"
    and len: "\<forall>r\<in>set (sf_records sf). length r = length (field_names sf)"
    and zs: "zs = zip (sf_records sf) (sf_shapes sf)"
  shows "\<exists>i printed selected_roads df.
      resolve_road_type_index (field_names sf) road_type_candidates
        = (Inr (i, printed) :: error + nat \<times> 'v event list)
    \<and> extract_road_data sf types
        = Inr (selected_roads, df,
               printed @ [UniqueRoadTypes ((\<lambda>r. r ! i) ` set (sf_records sf))])
    \<and> selected_roads = map snd (filter (\<lambda>(r, s). r ! i \<in> set types) zs)
    \<and> data df = map (\<lambda>(r, s). road_row r s)
                  (filter (\<lambda>(r, s). r ! i \<in> set types \<and> shapeType s = 3 \<and> points s \<noteq> []) zs)
    \<and> length (data df) \<le> length selected_roads
    \<and> (length (data df) = length selected_roads \<longleftrightarrow>
         (\<forall>(r, s)\<in>set zs. r ! i \<in> set types \<longrightarrow> shapeType s = 3 \<and> points s \<noteq> []))"
proof -
  from resolve_road_type_index_total [OF ne, of road_type_candidates]
  obtain i and printed :: "'v event list"
    where res: "resolve_road_type_index (field_names sf) road_type_candidates = Inr (i, printed)"
      and i: "i < length (field_names sf)"
    by blast
  let ?P = "\<lambda>z :: 'v list \<times> 'c shape. fst z ! i \<in> set types"
  let ?Q = "\<lambda>z :: 'v list \<times> 'c shape. shapeType (snd z) = 3 \<and> points (snd z) \<noteq> []"
  let ?sel = "map snd (filter (\<lambda>(r, s). r ! i \<in> set types) zs)"
  let ?rows = "map (\<lambda>(r, s). road_row r s)
                  (filter (\<lambda>(r, s). r ! i \<in> set types \<and> shapeType s = 3 \<and> points s \<noteq> []) zs)"
  let ?df = "\<lparr>columns = field_names sf @ [''start_lat'', ''start_long'', ''end_lat'', ''end_long''],
              data = ?rows\<rparr>"
  have run: "extract_road_data sf types =
      Inr (?sel, ?df, printed @ [UniqueRoadTypes ((\<lambda>r. r ! i) ` set (sf_records sf))])"
    unfolding zs using res i len by (rule extract_road_data_eq)
  have le: "length ?rows \<le> length ?sel"
    using length_filter_conj_le [of ?P ?Q zs] by (simp add: case_prod_unfold)
  have eq: "length ?rows = length ?sel \<longleftrightarrow>
         (\<forall>(r, s)\<in>set zs. r ! i \<in> set types \<longrightarrow> shapeType s = 3 \<and> points s \<noteq> [])"
    using length_filter_conj_eq [of ?P ?Q zs] by (simp add: case_prod_unfold)
  have "data ?df = ?rows"
    by simp
  with res run le eq show ?thesis
    by (intro exI [of _ i] exI [of _ printed] exI [of _ ?sel] exI [of _ ?df]) simp
qed

theorem extract_road_data_selection_witness:
  "\<exists>df printed.
     extract_road_data example_roads [''primary'', ''residential'']
       = Inr ([\<lparr>shapeType = 3, points = [(1, 2), (3, 4), (5, 6)]\<rparr>,
               \<lparr>shapeType = 5, points = [(0, 0), (0, 1), (1, 1)]\<rparr>,
               \<lparr>shapeType = 3, points = []\<rparr>,
               \<lparr>shapeType = 3, points = [(9, 9)]\<rparr>], df, printed)
   \<and> length (data df) = 2"
proof -
  have ne: "field_names example_roads \<noteq> []"
    by (simp add: example_defs)
  have len: "\<forall>r\<in>set (sf_records example_roads). length r = length (field_names example_roads)"
    by (simp add: example_defs)
  have res: "(resolve_road_type_index (field_names example_roads) road_type_candidates
               :: error + nat \<times> string event list) = Inr (2, [UsingField ''highway''])"
    by (simp add: example_defs road_type_candidates_def resolve_road_type_index_def)
  show ?thesis
    using extract_road_data_selection [OF ne len refl, of "[''primary'', ''residential'']"]
    unfolding res by (auto simp: example_defs)
qed





text \<open>
  Claim C4. For every schema \<open>flds\<close> that is not empty and every list of candidates: when
  \<open>c\<close> is the first candidate, in the order of the candidate list, that is a field of the
  schema (whatever the candidates after it are), the resolution returns the index of the
  first occurrence of \<open>c\<close> in the schema and prints only which field it uses; when no
  candidate is a field of the schema it does not fail but returns index 0, after the
  warning that no road type field was found and that the first field is the fallback.
\<close>

theorem resolve_road_type_index_first_candidate:
  assumes ne: "flds \<noteq> []"
  shows "(\<forall>pre c post.
            candidates = pre @ c # post \<and> set pre \<inter> set flds = {} \<and> c \<in> set flds \<longrightarrow>
            (\<exists>i. (resolve_road_type_index flds candidates :: error + nat \<times> 'v event list)
                    = Inr (i, [UsingField c])
                \<and> i < length flds \<and> flds ! i = c \<and> (\<forall>j<i. flds ! j \<noteq> c)))
       \<and> (set candidates \<inter> set flds = {} \<longrightarrow>
            (resolve_road_type_index flds candidates :: error + nat \<times> 'v event list)
              = Inr (0, [NoRoadTypeField flds, UsingFirstFieldFallback, UsingField (hd flds)]))"
proof (intro conjI allI impI)
  fix pre c post
  assume a: "candidates = pre @ c # post \<and> set pre \<inter> set flds = {} \<and> c \<in> set flds"
  then have found: "find_candidate flds candidates = Some c"
    by (simp add: find_candidate_first)
  from a have "\<exists>i. list_index flds c = Some i"
    by (simp add: list_index_mem)
  then obtain i where i: "list_index flds c = Some i" ..
  from found i
  have "(resolve_road_type_index flds candidates :: error + nat \<times> 'v event list)
          = Inr (i, [UsingField c])"
    by (rule resolve_road_type_index_found)
  moreover from i have "i < length flds \<and> flds ! i = c \<and> (\<forall>j<i. flds ! j \<noteq> c)"
    by (simp add: list_index_Some_iff)
  ultimately show "\<exists>i. (resolve_road_type_index flds candidates :: error + nat \<times> 'v event list)
                    = Inr (i, [UsingField c])
                \<and> i < length flds \<and> flds ! i = c \<and> (\<forall>j<i. flds ! j \<noteq> c)"
    by blast
next
  assume "set candidates \<inter> set flds = {}"
  then have none: "find_candidate flds candidates = None"
    by (rule find_candidate_None)
  from ne obtain f fs where flds: "flds = f # fs"
    by (cases flds) simp_all
  from none show "(resolve_road_type_index flds candidates :: error + nat \<times> 'v event list)
              = Inr (0, [NoRoadTypeField flds, UsingFirstFieldFallback, UsingField (hd flds)])"
    unfolding flds by (simp add: resolve_road_type_index_fallback)
qed

theorem resolve_road_type_index_first_candidate_witness:
  "(\<exists>i. (resolve_road_type_index [''name'', ''class'', ''highway'']
            [''type'', ''highway'', ''road_type'', ''roadtype'', ''class'']
            :: error + nat \<times> string event list) = Inr (i, [UsingField ''highway''])
        \<and> [''name'', ''class'', ''highway''] ! i = ''highway'')
   \<and> (resolve_road_type_index [''osm_id'', ''name'']
        [''type'', ''highway'', ''road_type'', ''roadtype'', ''class'']
        :: error + nat \<times> string event list)
       = Inr (0, [NoRoadTypeField [''osm_id'', ''name''], UsingFirstFieldFallback,
                  UsingField ''osm_id''])"
proof -
  let ?cands = "[''type'', ''highway'', ''road_type'', ''roadtype'', ''class'']"
  have ne1: "[''name'', ''class'', ''highway''] \<noteq> []" and ne2: "[''osm_id'', ''name''] \<noteq> []"
    by simp_all
  have split: "?cands = [''type''] @ ''highway'' # [''road_type'', ''roadtype'', ''class'']
      \<and> set [''type''] \<inter> set [''name'', ''class'', ''highway''] = {}
      \<and> ''highway'' \<in> set [''name'', ''class'', ''highway'']"
    by simp
  have none: "set ?cands \<inter> set [''osm_id'', ''name''] = {}"
    by simp
  note t1 = resolve_road_type_index_first_candidate [OF ne1, of ?cands, where ?'v = string]
  note t2 = resolve_road_type_index_first_candidate [OF ne2, of ?cands, where ?'v = string]
  from t1 split have "\<exists>i. (resolve_road_type_index [''name'', ''class'', ''highway''] ?cands
            :: error + nat \<times> string event list) = Inr (i, [UsingField ''highway''])
        \<and> i < length [''name'', ''class'', ''highway'']
        \<and> [''name'', ''class'', ''highway''] ! i = ''highway''
        \<and> (\<forall>j<i. [''name'', ''class'', ''highway''] ! j \<noteq> ''highway'')"
    by blast
  moreover from t2 none have "(resolve_road_type_index [''osm_id'', ''name''] ?cands
        :: error + nat \<times> string event list)
       = Inr (0, [NoRoadTypeField [''osm_id'', ''name''], UsingFirstFieldFallback,
                  UsingField (hd [''osm_id'', ''name''])])"
    by blast
  ultimately show ?thesis
    by auto
qed

text \<open>
  Claim C8, amended. For the store with schema \<open>NAME_2\<close>, \<open>highway\<close>, the records
  (CityA, primary), (CityA, footway), (CityB, primary) and any three shapes \<open>g1\<close>, \<open>g2\<close>,
  \<open>g3\<close>, and the types of interest \<open>primary\<close>: \<^verbatim>\<open>_extract_road_data\<close> does not look at the
  city, so the list for rendering is \<open>[g1, g3]\<close>, two shapes, the footway being left out
  by the test of the type; the table has one row for each of \<open>g1\<close> and \<open>g3\<close> that is a
  polyline with points, hence two rows when both are.
\<close>

theorem scenario_classification:
  fixes g1 g2 g3 :: "'c shape" and sf :: "(string, 'c) reader"
  assumes sf: "sf = \<lparr>sf_fields = [d, (''NAME_2'', a), (''highway'', b)],
                     sf_records = [[''CityA'', ''primary''], [''CityA'', ''footway''],
                                   [''CityB'', ''primary'']],
                     sf_shapes = [g1, g2, g3]\<rparr>"
  shows "\<exists>df printed.
      extract_road_data sf [''primary''] = Inr ([g1, g3], df, printed)
    \<and> data df = map (\<lambda>(r, s). road_row r s)
                  (filter (\<lambda>(r, s). shapeType s = 3 \<and> points s \<noteq> [])
                     [([''CityA'', ''primary''], g1), ([''CityB'', ''primary''], g3)])
    \<and> (shapeType g1 = 3 \<and> points g1 \<noteq> [] \<and> shapeType g3 = 3 \<and> points g3 \<noteq> []
         \<longrightarrow> length (data df) = 2)"
proof -
  have res: "resolve_road_type_index (field_names sf) road_type_candidates
               = (Inr (1, [UsingField ''highway'']) :: error + nat \<times> string event list)"
    by (simp add: sf field_names_def road_type_candidates_def resolve_road_type_index_def)
  have i: "1 < length (field_names sf)"
    by (simp add: sf field_names_def)
  have len: "\<forall>r\<in>set (sf_records sf). length r = length (field_names sf)"
    by (simp add: sf field_names_def)
  note run = extract_road_data_eq [OF res i len, of "[''primary'']"]
  let ?df = "\<lparr>columns = field_names sf @ [''start_lat'', ''start_long'', ''end_lat'', ''end_long''],
       data = map (\<lambda>(r, s). road_row r s)
                  (filter (\<lambda>(r, s). shapeType s = 3 \<and> points s \<noteq> [])
                     [([''CityA'', ''primary''], g1), ([''CityB'', ''primary''], g3)])\<rparr>"
  have "extract_road_data sf [''primary''] =
          Inr ([g1, g3], ?df, [UsingField ''highway'', UniqueRoadTypes {''primary'', ''footway''}])"
    unfolding run by (auto simp: sf)
  then show ?thesis
    by (intro exI [of _ ?df] exI) simp
qed

theorem scenario_classification_witness:
  "\<exists>df printed.
     extract_road_data
       \<lparr>sf_fields = [(''DeletionFlag'', ''C'', 1, 0), (''NAME_2'', ''C'', 50, 0),
                     (''highway'', ''C'', 20, 0)],
        sf_records = [[''CityA'', ''primary''], [''CityA'', ''footway''], [''CityB'', ''primary'']],
        sf_shapes = [\<lparr>shapeType = 3, points = [(0, 0), (1, 1 :: int)]\<rparr>,
                     \<lparr>shapeType = 3, points = [(1, 1), (2, 2)]\<rparr>,
                     \<lparr>shapeType = 3, points = [(2, 2), (3, 3)]\<rparr>]\<rparr>
       [''primary'']
     = Inr ([\<lparr>shapeType = 3, points = [(0, 0), (1, 1)]\<rparr>,
             \<lparr>shapeType = 3, points = [(2, 2), (3, 3)]\<rparr>], df, printed)
   \<and> length (data df) = 2"
  using scenario_classification [OF refl,
      of "(''DeletionFlag'', ''C'', 1, 0)" "(''C'', 50, 0)" "(''C'', 20, 0)"
         "\<lparr>shapeType = 3, points = [(0, 0), (1, 1 :: int)]\<rparr>"
         "\<lparr>shapeType = 3, points = [(1, 1), (2, 2)]\<rparr>"
         "\<lparr>shapeType = 3, points = [(2, 2), (3, 3)]\<rparr>"]
  by auto

text \<open>
  The scenario with three polylines of two points each: two shapes for rendering and two
  rows, not one of each.
\<close>

theorem scenario_counterexample:
  "extract_road_data
       \<lparr>sf_fields = [(''DeletionFlag'', ''C'', 1, 0), (''NAME_2'', ''C'', 50, 0),
                     (''highway'', ''C'', 20, 0)],
        sf_records = [[''CityA'', ''primary''], [''CityA'', ''footway''], [''CityB'', ''primary'']],
        sf_shapes = [\<lparr>shapeType = 3, points = [(0, 0), (1, 1 :: int)]\<rparr>,
                     \<lparr>shapeType = 3, points = [(1, 1), (2, 2)]\<rparr>,
                     \<lparr>shapeType = 3, points = [(2, 2), (3, 3)]\<rparr>]\<rparr>
       [''primary'']
     = Inr ([\<lparr>shapeType = 3, points = [(0, 0), (1, 1)]\<rparr>,
             \<lparr>shapeType = 3, points = [(2, 2), (3, 3)]\<rparr>],
            \<lparr>columns = [''NAME_2'', ''highway'', ''start_lat'', ''start_long'',
                        ''end_lat'', ''end_long''],
             data = [[Attr ''CityA'', Attr ''primary'', Coord 0, Coord 0, Coord 1, Coord 1],
                     [Attr ''CityB'', Attr ''primary'', Coord 2, Coord 2, Coord 3, Coord 3]]\<rparr>,
            [UsingField ''highway'', UniqueRoadTypes {''primary'', ''footway''}])
   \<and> length [\<lparr>shapeType = 3, points = [(0, 0), (1, 1 :: int)]\<rparr>,
              \<lparr>shapeType = 3, points = [(2, 2), (3, 3)]\<rparr>] \<noteq> 1
   \<and> length [[Attr ''CityA'', Attr ''primary'', Coord (0 :: int), Coord 0, Coord 1, Coord 1],
              [Attr ''CityB'', Attr ''primary'', Coord 2, Coord 2, Coord 3, Coord 3]] \<noteq> 1"
  by (auto simp: extract_road_data_def Let_def field_names_def road_type_candidates_def
      resolve_road_type_index_def getitem_def road_row_def pd_DataFrame_def)

end
